theory Spec2Isabelle
  imports
    Main
    "HOL-Library.Char_ord"
    "HOL-Library.List_Lexorder"
    "HOL-Library.Product_Lexorder"
    "HOL-Library.Multiset"
begin

section \<open>JavaScript values of a request body\<close>

text \<open>
  A field of a JSON request body, as the handlers of the server destructure it from
  \<^verbatim>\<open>req.body\<close>: absent (\<^verbatim>\<open>undefined\<close>), \<^verbatim>\<open>null\<close>, a boolean, a number or a
  string. Numbers are the integer-valued ones; fractional doubles are outside this
  model. A number that may be \<^verbatim>\<open>NaN\<close> (the result of \<^verbatim>\<open>parseInt\<close>) is an
  \<open>int option\<close> with \<open>None\<close> for \<^verbatim>\<open>NaN\<close>.

  The program computes with doubles, the model with integers. The two agree as long
  as every number read, parsed and computed is a safe integer (\<open>safe_integer\<close>
  below); beyond that range a double sum rounds, and the theorems about the capacity
  arithmetic carry the range as a hypothesis (\<open>in_safe_range\<close>).
\<close>

datatype jsval = JUndefined | JNull | JBool bool | JNum int | JStr string

text \<open>The truthiness test of \<^verbatim>\<open>!x\<close>, \<^verbatim>\<open>x || y\<close> and \<^verbatim>\<open>x ? a : b\<close>.\<close>

fun truthy :: "jsval \<Rightarrow> bool" where
  "truthy JUndefined = False"
| "truthy JNull = False"
| "truthy (JBool b) = b"
| "truthy (JNum n) = (n \<noteq> 0)"
| "truthy (JStr s) = (s \<noteq> [])"

text \<open>\<^verbatim>\<open>x || y\<close> on values, and on numbers (where \<^verbatim>\<open>0\<close> and \<^verbatim>\<open>NaN\<close> are falsy).\<close>

definition js_or :: "jsval \<Rightarrow> jsval \<Rightarrow> jsval" where
  "js_or x y = (if truthy x then x else y)"

definition num_or :: "int option \<Rightarrow> int \<Rightarrow> int" where
  "num_or x y = (case x of None \<Rightarrow> y | Some n \<Rightarrow> if n \<noteq> 0 then n else y)"

text \<open>
  \<^verbatim>\<open>Number.isSafeInteger\<close>: the integers up to \<open>2^53 - 1\<close> in magnitude. Every one
  of them is a double, and a sum or difference of two of them that is again one of
  them is computed exactly.
\<close>

definition safe_integer :: "int \<Rightarrow> bool" where
  "safe_integer n = (- 9007199254740991 \<le> n \<and> n \<le> 9007199254740991)"

subsection \<open>parseInt\<close>

text \<open>
  \<^verbatim>\<open>parseInt(x)\<close> with no radix: the argument is converted to a string, leading white
  space is dropped, an optional sign is read, a \<^verbatim>\<open>0x\<close> prefix selects base 16, and the
  longest prefix of digits is the result; with no digit the result is \<^verbatim>\<open>NaN\<close>.
  The strings of \<^verbatim>\<open>undefined\<close>, \<^verbatim>\<open>null\<close> and the booleans start with no digit;
  the string of an integer-valued number is its decimal text, which reads back as the
  number. White space is the ASCII white space.

  The result is exact here, a double in the program: the two are the same number
  when the result is a safe integer. (A digit string beyond \<open>2^53\<close> is rounded by the
  program, and a number of magnitude \<open>10^21\<close> or more has a text in exponent notation,
  of which the program reads the leading digit; both have results outside the safe
  integers here.)
\<close>

definition is_space :: "char \<Rightarrow> bool" where
  "is_space c = (c \<in> set [CHR '' '', CHR 0x09, CHR 0x0A, CHR 0x0B, CHR 0x0C, CHR 0x0D])"

definition digit_val :: "char \<Rightarrow> nat option" where
  "digit_val c =
     (let k = (of_char c :: nat) in
      if 48 \<le> k \<and> k \<le> 57 then Some (k - 48)
      else if 97 \<le> k \<and> k \<le> 102 then Some (k - 87)
      else if 65 \<le> k \<and> k \<le> 70 then Some (k - 55)
      else None)"

definition is_digit :: "nat \<Rightarrow> char \<Rightarrow> bool" where
  "is_digit radix c = (case digit_val c of None \<Rightarrow> False | Some d \<Rightarrow> d < radix)"

definition digits_value :: "nat \<Rightarrow> string \<Rightarrow> nat" where
  "digits_value radix ds = foldl (\<lambda>acc c. acc * radix + (case digit_val c of None \<Rightarrow> 0 | Some d \<Rightarrow> d)) 0 ds"

definition parse_digits :: "nat \<Rightarrow> string \<Rightarrow> nat option" where
  "parse_digits radix s =
     (let ds = takeWhile (is_digit radix) s in
      if ds = [] then None else Some (digits_value radix ds))"

fun strip_radix :: "string \<Rightarrow> nat \<times> string" where
  "strip_radix (c # d # rest) =
     (if c = CHR ''0'' \<and> (d = CHR ''x'' \<or> d = CHR ''X'') then (16, rest) else (10, c # d # rest))"
| "strip_radix s = (10, s)"

fun strip_sign :: "string \<Rightarrow> int \<times> string" where
  "strip_sign (c # rest) =
     (if c = CHR ''-'' then (- 1, rest) else if c = CHR ''+'' then (1, rest) else (1, c # rest))"
| "strip_sign [] = (1, [])"

definition parseInt_string :: "string \<Rightarrow> int option" where
  "parseInt_string s =
     (let (sign, s1) = strip_sign (dropWhile is_space s);
          (radix, s2) = strip_radix s1
      in map_option (\<lambda>n. sign * int n) (parse_digits radix s2))"

fun parseInt :: "jsval \<Rightarrow> int option" where
  "parseInt (JStr s) = parseInt_string s"
| "parseInt (JNum n) = Some n"
| "parseInt JUndefined = None"
| "parseInt JNull = None"
| "parseInt (JBool b) = None"

subsection \<open>Numbers as text\<close>

text \<open>
  The decimal text of an integer, as a template literal \<^verbatim>\<open>${n}\<close> prints it and as a
  TEXT column stores a bound number.
\<close>

fun decimal_nat :: "nat \<Rightarrow> string" where
  "decimal_nat n =
     (if n < 10 then [char_of (48 + n)]
      else decimal_nat (n div 10) @ [char_of (48 + n mod 10)])"

declare decimal_nat.simps [simp del]

definition decimal :: "int \<Rightarrow> string" where
  "decimal i = (if i < 0 then CHR ''-'' # decimal_nat (nat (- i)) else decimal_nat (nat i))"


section \<open>The store\<close>

text \<open>
  The two tables that \<^verbatim>\<open>initDatabase\<close> creates. A row is a record of its columns,
  typed by the column's declaration: a \<^verbatim>\<open>TEXT NOT NULL\<close> column holds a string,
  a nullable one a \<open>string option\<close> (\<open>None\<close> for NULL), \<^verbatim>\<open>INTEGER NOT NULL\<close> an
  \<open>int\<close>, and \<^verbatim>\<open>attendees INTEGER DEFAULT 0\<close> an \<open>int option\<close>. The timestamp
  columns \<^verbatim>\<open>created_at\<close> and \<^verbatim>\<open>registration_date\<close> are left out: no operation
  reads them. Rows are kept in insertion order. The foreign key of
  \<^verbatim>\<open>registrations.event_id\<close> is declared but not enforced, since the code never
  switches the \<^verbatim>\<open>foreign_keys\<close> pragma on.
\<close>

record event_row =
  ev_id :: int
  ev_title :: string
  ev_description :: string
  ev_date :: string
  ev_time :: string
  ev_location :: string
  ev_capacity :: int
  ev_attendees :: "int option"
  ev_category :: string
  ev_image :: "string option"
  ev_price :: int

record registration_row =
  reg_id :: int
  reg_event_id :: int
  reg_first_name :: string
  reg_last_name :: string
  reg_email :: string
  reg_phone :: string
  reg_tickets :: int
  reg_comments :: "string option"

text \<open>
  \<open>events_seq\<close> and \<open>registrations_seq\<close> are the largest row ids handed out so far
  (the \<^verbatim>\<open>AUTOINCREMENT\<close> counters).
\<close>

record database =
  events :: "event_row list"
  registrations :: "registration_row list"
  events_seq :: int
  registrations_seq :: int

definition empty_db :: database where
  "empty_db = \<lparr>events = [], registrations = [], events_seq = 0, registrations_seq = 0\<rparr>"

text \<open>
  Every call of the driver (\<^verbatim>\<open>db.run\<close>, \<^verbatim>\<open>db.get\<close>, \<^verbatim>\<open>db.all\<close>) hands its
  callback an \<^verbatim>\<open>err\<close>. Each operation below takes a boolean \<open>err\<close> saying whether
  the driver fails that statement for a reason of its own (no change is made then);
  a violated \<^verbatim>\<open>NOT NULL\<close> constraint is the other error.
\<close>

datatype storage_error = DriverFailure | NotNullConstraint

text \<open>
  A value bound to a parameter of a TEXT column: strings as they are, booleans as
  the integers 1 and 0, \<^verbatim>\<open>null\<close> and \<^verbatim>\<open>undefined\<close> as NULL. A number that is a
  32-bit integer is bound as an integer and stored as its decimal text; any other
  number is bound as a double, whose text has a decimal point (\<^verbatim>\<open>5550100000.0\<close>).
  From \<open>10^15\<close> on the store prints a double in exponent notation, which is outside
  this model; no statement below reads the text of a number.
\<close>

fun sql_text :: "jsval \<Rightarrow> string option" where
  "sql_text (JStr s) = Some s"
| "sql_text (JNum n) =
     Some (if - 2147483648 \<le> n \<and> n \<le> 2147483647 then decimal n else decimal n @ ''.0'')"
| "sql_text (JBool b) = Some (if b then ''1'' else ''0'')"
| "sql_text JNull = None"
| "sql_text JUndefined = None"

subsection \<open>Event methods\<close>

text \<open>
  \<^verbatim>\<open>getAllEvents(category = null)\<close>; the category comes from the query string, so it
  is a string or absent. \<^verbatim>\<open>ORDER BY date, time\<close> compares the texts byte by byte.
\<close>

definition getAllEvents :: "bool \<Rightarrow> database \<Rightarrow> string option \<Rightarrow> storage_error + event_row list" where
  "getAllEvents err db category =
     (let rows =
        (case category of
           None \<Rightarrow> events db
         | Some c \<Rightarrow>
             if c \<noteq> [] \<and> c \<noteq> ''all'' then filter (\<lambda>e. ev_category e = c) (events db)
             else events db)
      in if err then Inl DriverFailure
         else Inr (sort_key (\<lambda>e. (ev_date e, ev_time e)) rows))"

text \<open>
  \<^verbatim>\<open>getEventById(id)\<close>: the first row with that id, or \<^verbatim>\<open>undefined\<close> (\<open>None\<close>).
  The id is the result of \<^verbatim>\<open>parseInt\<close>; \<^verbatim>\<open>NaN\<close> is bound as NULL and equals no id.
\<close>

definition getEventById :: "bool \<Rightarrow> database \<Rightarrow> int option \<Rightarrow> storage_error + event_row option" where
  "getEventById err db i =
     (if err then Inl DriverFailure
      else Inr (find (\<lambda>e. Some (ev_id e) = i) (events db)))"

text \<open>The object handed to \<^verbatim>\<open>createEvent\<close> by the \<^verbatim>\<open>POST /api/events\<close> handler.\<close>

record event_data =
  ed_title :: jsval
  ed_description :: jsval
  ed_date :: jsval
  ed_time :: jsval
  ed_location :: jsval
  ed_capacity :: "int option"
  ed_category :: jsval
  ed_image :: jsval
  ed_price :: "int option"

text \<open>\<^verbatim>\<open>{ id: this.lastID, ...eventData, attendees: 0 }\<close>\<close>

record created_event =
  ce_id :: int
  ce_data :: event_data
  ce_attendees :: int

definition placeholder_image :: string where
  "placeholder_image =
     ''https://images.unsplash.com/photo-1542736667-069246bdbc6d?ixlib=rb-1.2.1&auto=format&fit=crop&w=1350&q=80''"

text \<open>
  The \<^verbatim>\<open>INSERT INTO events\<close> of \<^verbatim>\<open>createEvent\<close>, with its nine parameters in
  order. \<^verbatim>\<open>attendees\<close> is not among the columns and takes its default 0.
\<close>

definition insert_event ::
  "bool \<Rightarrow> database \<Rightarrow> string option \<Rightarrow> string option \<Rightarrow> string option \<Rightarrow> string option \<Rightarrow>
   string option \<Rightarrow> int option \<Rightarrow> string option \<Rightarrow> string option \<Rightarrow> int \<Rightarrow>
   (storage_error + int) \<times> database" where
  "insert_event err db title description date time location capacity category img price =
     (if err then (Inl DriverFailure, db)
      else if title = None \<or> description = None \<or> date = None \<or> time = None \<or>
              location = None \<or> capacity = None \<or> category = None
      then (Inl NotNullConstraint, db)
      else
        let lastID = events_seq db + 1;
            row = \<lparr>ev_id = lastID, ev_title = the title, ev_description = the description,
                   ev_date = the date, ev_time = the time, ev_location = the location,
                   ev_capacity = the capacity, ev_attendees = Some 0,
                   ev_category = the category, ev_image = img, ev_price = price\<rparr>
        in (Inr lastID, db\<lparr>events := events db @ [row], events_seq := lastID\<rparr>))"

definition createEvent :: "bool \<Rightarrow> database \<Rightarrow> event_data \<Rightarrow> (storage_error + created_event) \<times> database" where
  "createEvent err db eventData =
     (case insert_event err db
             (sql_text (ed_title eventData)) (sql_text (ed_description eventData))
             (sql_text (ed_date eventData)) (sql_text (ed_time eventData))
             (sql_text (ed_location eventData)) (ed_capacity eventData)
             (sql_text (ed_category eventData))
             (sql_text (js_or (ed_image eventData) (JStr placeholder_image)))
             (num_or (ed_price eventData) 0) of
        (Inl e, db') \<Rightarrow> (Inl e, db')
      | (Inr lastID, db') \<Rightarrow>
          (Inr \<lparr>ce_id = lastID, ce_data = eventData, ce_attendees = 0\<rparr>, db'))"

text \<open>\<^verbatim>\<open>UPDATE events SET attendees = ? WHERE id = ?\<close>\<close>

definition updateEventAttendees ::
  "bool \<Rightarrow> database \<Rightarrow> int option \<Rightarrow> int option \<Rightarrow> (storage_error + unit) \<times> database" where
  "updateEventAttendees err db eventId newAttendeeCount =
     (if err then (Inl DriverFailure, db)
      else (Inr (),
            db\<lparr>events :=
                 map (\<lambda>e. if Some (ev_id e) = eventId then e\<lparr>ev_attendees := newAttendeeCount\<rparr> else e)
                     (events db)\<rparr>))"

text \<open>
  \<^verbatim>\<open>deleteEvent(eventId)\<close>: two statements, each with its own \<^verbatim>\<open>err\<close>. The
  second runs in the callback of the first, only when the first did not fail, and the
  promise resolves with \<^verbatim>\<open>this.changes\<close>, the number of event rows it deleted.
\<close>

definition delete_registrations_of :: "database \<Rightarrow> int option \<Rightarrow> database" where
  "delete_registrations_of db eventId =
     db\<lparr>registrations := filter (\<lambda>r. Some (reg_event_id r) \<noteq> eventId) (registrations db)\<rparr>"

definition delete_event_row :: "database \<Rightarrow> int option \<Rightarrow> database" where
  "delete_event_row db eventId =
     db\<lparr>events := filter (\<lambda>e. Some (ev_id e) \<noteq> eventId) (events db)\<rparr>"

definition deleteEvent ::
  "bool \<Rightarrow> bool \<Rightarrow> database \<Rightarrow> int option \<Rightarrow> (storage_error + nat) \<times> database" where
  "deleteEvent err1 err2 db eventId =
     (if err1 then (Inl DriverFailure, db)
      else
        let db1 = delete_registrations_of db eventId in
        if err2 then (Inl DriverFailure, db1)
        else (Inr (length (filter (\<lambda>e. Some (ev_id e) = eventId) (events db1))),
              delete_event_row db1 eventId))"

subsection \<open>Registration methods\<close>

text \<open>The object handed to \<^verbatim>\<open>createRegistration\<close> by the \<^verbatim>\<open>POST /api/registrations\<close> handler.\<close>

record registration_data =
  rd_eventId :: "int option"
  rd_firstName :: jsval
  rd_lastName :: jsval
  rd_email :: jsval
  rd_phone :: jsval
  rd_tickets :: "int option"
  rd_comments :: jsval

text \<open>\<^verbatim>\<open>{ id: this.lastID, ...registrationData }\<close>\<close>

record created_registration =
  cr_id :: int
  cr_data :: registration_data

definition insert_registration ::
  "bool \<Rightarrow> database \<Rightarrow> int option \<Rightarrow> string option \<Rightarrow> string option \<Rightarrow> string option \<Rightarrow>
   string option \<Rightarrow> int option \<Rightarrow> string option \<Rightarrow> (storage_error + int) \<times> database" where
  "insert_registration err db event_id first_name last_name email phone tickets comments =
     (if err then (Inl DriverFailure, db)
      else if event_id = None \<or> first_name = None \<or> last_name = None \<or> email = None \<or>
              phone = None \<or> tickets = None
      then (Inl NotNullConstraint, db)
      else
        let lastID = registrations_seq db + 1;
            row = \<lparr>reg_id = lastID, reg_event_id = the event_id, reg_first_name = the first_name,
                   reg_last_name = the last_name, reg_email = the email, reg_phone = the phone,
                   reg_tickets = the tickets, reg_comments = comments\<rparr>
        in (Inr lastID, db\<lparr>registrations := registrations db @ [row], registrations_seq := lastID\<rparr>))"

definition createRegistration ::
  "bool \<Rightarrow> database \<Rightarrow> registration_data \<Rightarrow> (storage_error + created_registration) \<times> database" where
  "createRegistration err db registrationData =
     (case insert_registration err db
             (rd_eventId registrationData)
             (sql_text (rd_firstName registrationData)) (sql_text (rd_lastName registrationData))
             (sql_text (rd_email registrationData)) (sql_text (rd_phone registrationData))
             (rd_tickets registrationData)
             (sql_text (js_or (rd_comments registrationData) (JStr []))) of
        (Inl e, db') \<Rightarrow> (Inl e, db')
      | (Inr lastID, db') \<Rightarrow> (Inr \<lparr>cr_id = lastID, cr_data = registrationData\<rparr>, db'))"

definition getEventRegistrations ::
  "bool \<Rightarrow> database \<Rightarrow> int option \<Rightarrow> storage_error + registration_row list" where
  "getEventRegistrations err db eventId =
     (if err then Inl DriverFailure
      else Inr (filter (\<lambda>r. Some (reg_event_id r) = eventId) (registrations db)))"

text \<open>
  \<^verbatim>\<open>SELECT SUM(tickets) as total\<close> is NULL over no rows; \<^verbatim>\<open>row.total || 0\<close>
  turns NULL (and 0) into 0.
\<close>

definition sum_tickets :: "database \<Rightarrow> int option \<Rightarrow> int option" where
  "sum_tickets db eventId =
     (let rows = filter (\<lambda>r. Some (reg_event_id r) = eventId) (registrations db)
      in if rows = [] then None else Some (sum_list (map reg_tickets rows)))"

definition getEventAttendeeCount :: "bool \<Rightarrow> database \<Rightarrow> int option \<Rightarrow> storage_error + int" where
  "getEventAttendeeCount err db eventId =
     (if err then Inl DriverFailure else Inr (num_or (sum_tickets db eventId) 0))"

section \<open>The request handlers\<close>

text \<open>What a handler sends: \<^verbatim>\<open>res.status(n).json(body)\<close>.\<close>

datatype body =
    ErrorBody string
  | EventCreated created_event
  | RegistrationCreated string created_registration event_row

datatype response = Response (status: nat) (body: body)

text \<open>
  A handler awaits the store once per call; \<open>fails errs k\<close> says whether the driver
  fails the call numbered \<open>k\<close> (from 0) of the request. The empty list is a run in
  which the driver never fails.
\<close>

definition fails :: "bool list \<Rightarrow> nat \<Rightarrow> bool" where
  "fails errs k = (k < length errs \<and> errs ! k)"

subsection \<open>POST /api/events\<close>

record event_request =
  eq_title :: jsval
  eq_description :: jsval
  eq_date :: jsval
  eq_time :: jsval
  eq_location :: jsval
  eq_capacity :: jsval
  eq_category :: jsval
  eq_image :: jsval
  eq_price :: jsval

text \<open>
  \<^verbatim>\<open>parseFloat\<close> is a parameter: its results are doubles, of which the model keeps
  the integer-valued ones and \<^verbatim>\<open>NaN\<close>.
\<close>

definition post_events ::
  "(jsval \<Rightarrow> int option) \<Rightarrow> bool \<Rightarrow> database \<Rightarrow> event_request \<Rightarrow> response \<times> database" where
  "post_events parseFloat err db req =
     (if \<not> truthy (eq_title req) \<or> \<not> truthy (eq_description req) \<or> \<not> truthy (eq_date req) \<or>
         \<not> truthy (eq_time req) \<or> \<not> truthy (eq_location req) \<or> \<not> truthy (eq_capacity req) \<or>
         \<not> truthy (eq_category req)
      then (Response 400 (ErrorBody ''All fields are required''), db)
      else
        case createEvent err db
               \<lparr>ed_title = eq_title req, ed_description = eq_description req,
                ed_date = eq_date req, ed_time = eq_time req, ed_location = eq_location req,
                ed_capacity = parseInt (eq_capacity req), ed_category = eq_category req,
                ed_image = eq_image req,
                ed_price = (if truthy (eq_price req) then parseFloat (eq_price req) else Some 0)\<rparr> of
          (Inl e, db') \<Rightarrow> (Response 500 (ErrorBody ''Failed to create event''), db')
        | (Inr newEvent, db') \<Rightarrow> (Response 201 (EventCreated newEvent), db'))"

subsection \<open>POST /api/registrations\<close>

record registration_request =
  rq_firstName :: jsval
  rq_lastName :: jsval
  rq_email :: jsval
  rq_phone :: jsval
  rq_eventId :: jsval
  rq_tickets :: jsval
  rq_comments :: jsval

text \<open>\<^verbatim>\<open>a + b\<close> and \<^verbatim>\<open>x > c\<close> where \<open>b\<close> and \<open>x\<close> may be \<^verbatim>\<open>NaN\<close>: a sum
  with \<^verbatim>\<open>NaN\<close> is \<^verbatim>\<open>NaN\<close>, and every comparison with \<^verbatim>\<open>NaN\<close> is false.
  The sum is the exact one; it is the program's double sum when both numbers and
  their sum are safe integers, which \<open>in_safe_range\<close> below demands of a request.\<close>

definition num_add :: "int \<Rightarrow> int option \<Rightarrow> int option" where
  "num_add a b = map_option (\<lambda>n. a + n) b"

definition num_gt :: "int option \<Rightarrow> int \<Rightarrow> bool" where
  "num_gt x c = (case x of None \<Rightarrow> False | Some n \<Rightarrow> n > c)"

definition validation_failed :: response where
  "validation_failed = Response 400 (ErrorBody ''All required fields must be filled'')"

definition event_not_found :: response where
  "event_not_found = Response 404 (ErrorBody ''Event not found'')"

definition capacity_exceeded :: "int \<Rightarrow> response" where
  "capacity_exceeded remaining =
     Response 400 (ErrorBody (''Only '' @ decimal remaining @ '' tickets available for this event''))"

definition registration_failed :: response where
  "registration_failed = Response 500 (ErrorBody ''Failed to create registration'')"

definition registration_successful :: "created_registration \<Rightarrow> event_row \<Rightarrow> response" where
  "registration_successful registration event =
     Response 201 (RegistrationCreated ''Registration successful'' registration event)"

definition missing_required :: "registration_request \<Rightarrow> bool" where
  "missing_required req =
     (\<not> truthy (rq_firstName req) \<or> \<not> truthy (rq_lastName req) \<or> \<not> truthy (rq_email req) \<or>
      \<not> truthy (rq_phone req) \<or> \<not> truthy (rq_eventId req) \<or> \<not> truthy (rq_tickets req))"

definition registration_of :: "registration_request \<Rightarrow> registration_data" where
  "registration_of req =
     \<lparr>rd_eventId = parseInt (rq_eventId req), rd_firstName = rq_firstName req,
      rd_lastName = rq_lastName req, rd_email = rq_email req, rd_phone = rq_phone req,
      rd_tickets = parseInt (rq_tickets req),
      rd_comments = js_or (rq_comments req) (JStr [])\<rparr>"

text \<open>The handler, run from the request to its response with nothing in between.\<close>

definition post_registrations ::
  "bool list \<Rightarrow> database \<Rightarrow> registration_request \<Rightarrow> response \<times> database" where
  "post_registrations errs db req =
     (if missing_required req then (validation_failed, db)
      else
        case getEventById (fails errs 0) db (parseInt (rq_eventId req)) of
          Inl e \<Rightarrow> (registration_failed, db)
        | Inr None \<Rightarrow> (event_not_found, db)
        | Inr (Some event) \<Rightarrow>
            (case getEventAttendeeCount (fails errs 1) db (parseInt (rq_eventId req)) of
               Inl e \<Rightarrow> (registration_failed, db)
             | Inr currentAttendees \<Rightarrow>
                 if num_gt (num_add currentAttendees (parseInt (rq_tickets req))) (ev_capacity event)
                 then (capacity_exceeded (ev_capacity event - currentAttendees), db)
                 else
                   (case createRegistration (fails errs 2) db (registration_of req) of
                      (Inl e, db1) \<Rightarrow> (registration_failed, db1)
                    | (Inr registration, db1) \<Rightarrow>
                        let newAttendeeCount = num_add currentAttendees (parseInt (rq_tickets req)) in
                        (case updateEventAttendees (fails errs 3) db1
                                (parseInt (rq_eventId req)) newAttendeeCount of
                           (Inl e, db2) \<Rightarrow> (registration_failed, db2)
                         | (Inr u, db2) \<Rightarrow>
                             (registration_successful registration
                                (event\<lparr>ev_attendees := newAttendeeCount\<rparr>), db2)))))"

text \<open>A sequence of requests, each handled to its end before the next starts.\<close>

fun run_requests ::
  "(bool list \<times> registration_request) list \<Rightarrow> database \<Rightarrow>
   (registration_request \<times> response \<times> database) list" where
  "run_requests [] db = []"
| "run_requests ((errs, req) # rest) db =
     (let (resp, db') = post_registrations errs db req
      in (req, resp, db') # run_requests rest db')"

subsection \<open>The handler between its awaits\<close>

text \<open>
  The handler is an \<^verbatim>\<open>async\<close> function: at each \<^verbatim>\<open>await\<close> it hands a statement to
  the store and is resumed with the result, and other requests run in between. A
  \<open>task\<close> is a request at one of these points, holding the local variables that are
  live there; \<open>step\<close> runs it from one \<^verbatim>\<open>await\<close> to the next, executing the awaited
  statement on the store as it is at that moment.
\<close>

datatype task =
    Start registration_request
  | AwaitCount registration_request event_row
  | AwaitInsert registration_request event_row int
  | AwaitUpdate registration_request event_row int created_registration
  | Finished response

fun step :: "bool \<Rightarrow> database \<Rightarrow> task \<Rightarrow> task \<times> database" where
  "step err db (Start req) =
     (if missing_required req then (Finished validation_failed, db)
      else
        case getEventById err db (parseInt (rq_eventId req)) of
          Inl e \<Rightarrow> (Finished registration_failed, db)
        | Inr None \<Rightarrow> (Finished event_not_found, db)
        | Inr (Some event) \<Rightarrow> (AwaitCount req event, db))"
| "step err db (AwaitCount req event) =
     (case getEventAttendeeCount err db (parseInt (rq_eventId req)) of
        Inl e \<Rightarrow> (Finished registration_failed, db)
      | Inr currentAttendees \<Rightarrow>
          if num_gt (num_add currentAttendees (parseInt (rq_tickets req))) (ev_capacity event)
          then (Finished (capacity_exceeded (ev_capacity event - currentAttendees)), db)
          else (AwaitInsert req event currentAttendees, db))"
| "step err db (AwaitInsert req event currentAttendees) =
     (case createRegistration err db (registration_of req) of
        (Inl e, db1) \<Rightarrow> (Finished registration_failed, db1)
      | (Inr registration, db1) \<Rightarrow> (AwaitUpdate req event currentAttendees registration, db1))"
| "step err db (AwaitUpdate req event currentAttendees registration) =
     (let newAttendeeCount = num_add currentAttendees (parseInt (rq_tickets req)) in
      case updateEventAttendees err db (parseInt (rq_eventId req)) newAttendeeCount of
        (Inl e, db2) \<Rightarrow> (Finished registration_failed, db2)
      | (Inr u, db2) \<Rightarrow>
          (Finished (registration_successful registration
                       (event\<lparr>ev_attendees := newAttendeeCount\<rparr>)), db2))"
| "step err db (Finished resp) = (Finished resp, db)"

text \<open>One request alone: its four awaits in a row.\<close>

definition run_alone :: "bool list \<Rightarrow> database \<Rightarrow> task \<Rightarrow> task \<times> database" where
  "run_alone errs db t0 =
     (let (t1, db1) = step (fails errs 0) db t0;
          (t2, db2) = step (fails errs 1) db1 t1;
          (t3, db3) = step (fails errs 2) db2 t2
      in step (fails errs 3) db3 t3)"

text \<open>
  Several requests in flight: a schedule names, turn by turn, the task that is
  resumed next and whether the driver fails its statement.
\<close>

fun run_schedule :: "(nat \<times> bool) list \<Rightarrow> database \<Rightarrow> task list \<Rightarrow> task list \<times> database" where
  "run_schedule [] db ts = (ts, db)"
| "run_schedule ((i, err) # sched) db ts =
     (if i < length ts
      then (let (t', db') = step err db (ts ! i) in run_schedule sched db' (ts[i := t']))
      else run_schedule sched db ts)"

text \<open>
  Two requests in flight that take turns, the first one first, until both are
  finished; the driver fails no statement.
\<close>

definition alternating :: "(nat \<times> bool) list" where
  "alternating =
     [(0, False), (1, False), (0, False), (1, False), (0, False), (1, False), (0, False), (1, False)]"

section \<open>Properties of a store\<close>

text \<open>
  \<open>ticket_total db i\<close> is the sum of the tickets of all registrations for the event
  \<open>i\<close>. \<open>wf_db\<close> says what the two \<^verbatim>\<open>INTEGER PRIMARY KEY AUTOINCREMENT\<close>
  columns guarantee: no two rows of a table share an id, and no id is above the
  table's counter.
\<close>

definition ticket_total :: "database \<Rightarrow> int \<Rightarrow> int" where
  "ticket_total db i = sum_list (map reg_tickets (filter (\<lambda>r. reg_event_id r = i) (registrations db)))"

definition wf_db :: "database \<Rightarrow> bool" where
  "wf_db db =
     (distinct (map ev_id (events db)) \<and> list_all (\<lambda>e. ev_id e \<le> events_seq db) (events db) \<and>
      distinct (map reg_id (registrations db)) \<and>
      list_all (\<lambda>r. reg_id r \<le> registrations_seq db) (registrations db))"

text \<open>
  The range in which the handler's double arithmetic is the integer arithmetic of
  this model, for one request on one store. The event id and the tickets that
  \<^verbatim>\<open>parseInt\<close> reads (when it reads a number) are safe integers; so are the
  capacity of the event with that id, the sum of its registrations' tickets (with
  every partial sum, whatever the order of the rows: the tickets are summed by
  magnitude), that sum plus the requested tickets, and the capacity minus that sum.
\<close>

definition abs_tickets :: "database \<Rightarrow> int \<Rightarrow> int" where
  "abs_tickets db i =
     sum_list (map (\<lambda>r. \<bar>reg_tickets r\<bar>) (filter (\<lambda>r. reg_event_id r = i) (registrations db)))"

definition in_safe_range :: "database \<Rightarrow> registration_request \<Rightarrow> bool" where
  "in_safe_range db req =
     (case parseInt (rq_eventId req) of
        None \<Rightarrow> True
      | Some eid \<Rightarrow>
          safe_integer eid \<and> safe_integer (abs_tickets db eid) \<and>
          (case parseInt (rq_tickets req) of
             None \<Rightarrow> True
           | Some t \<Rightarrow> safe_integer t \<and> safe_integer (ticket_total db eid + t)) \<and>
          list_all (\<lambda>e. ev_id e \<noteq> eid \<or>
                         safe_integer (ev_capacity e) \<and>
                         safe_integer (ev_capacity e - ticket_total db eid))
            (events db))"

text \<open>
  A sequence of requests handled one after the other stays in that range when each
  request is in range on the store it meets.
\<close>

fun safe_run :: "(bool list \<times> registration_request) list \<Rightarrow> database \<Rightarrow> bool" where
  "safe_run [] db = True"
| "safe_run ((errs, req) # rest) db =
     (in_safe_range db req \<and> safe_run rest (snd (post_registrations errs db req)))"


section \<open>Example data\<close>

text \<open>
  A store with one event of capacity 10 and one registration of 8 tickets for it,
  and a complete request for that event with a given \<^verbatim>\<open>tickets\<close> field.
\<close>

definition example_event :: event_row where
  "example_event =
     \<lparr>ev_id = 1, ev_title = ''Web Development Workshop'', ev_description = ''Hands-on workshop'',
      ev_date = ''2025-11-28'', ev_time = ''13:00'', ev_location = ''Hyderabad, Telangana'',
      ev_capacity = 10, ev_attendees = Some 8, ev_category = ''tech'', ev_image = None,
      ev_price = 1999\<rparr>"

definition example_registration :: registration_row where
  "example_registration =
     \<lparr>reg_id = 1, reg_event_id = 1, reg_first_name = ''Asha'', reg_last_name = ''Rao'',
      reg_email = ''asha@example.org'', reg_phone = ''5550100'', reg_tickets = 8,
      reg_comments = Some []\<rparr>"

definition example_db :: database where
  "example_db =
     \<lparr>events = [example_event], registrations = [example_registration],
      events_seq = 1, registrations_seq = 1\<rparr>"

definition example_request :: "jsval \<Rightarrow> registration_request" where
  "example_request n =
     \<lparr>rq_firstName = JStr ''Ravi'', rq_lastName = JStr ''Kumar'',
      rq_email = JStr ''ravi@example.org'', rq_phone = JStr ''5550101'',
      rq_eventId = JNum 1, rq_tickets = n, rq_comments = JUndefined\<rparr>"

text \<open>Three events out of order, of two categories.\<close>

definition listing_db :: database where
  "listing_db =
     \<lparr>events =
        [example_event,
         example_event\<lparr>ev_id := 2, ev_date := ''2025-11-15'', ev_time := ''09:00'',
                        ev_category := ''business''\<rparr>,
         example_event\<lparr>ev_id := 3, ev_date := ''2025-11-28'', ev_time := ''09:30''\<rparr>],
      registrations = [], events_seq = 3, registrations_seq = 0\<rparr>"

text \<open>A request to create an event, with every required field and neither image nor price.\<close>

definition example_event_request :: event_request where
  "example_event_request =
     \<lparr>eq_title = JStr ''Web Development Workshop'', eq_description = JStr ''Hands-on workshop'',
      eq_date = JStr ''2025-11-28'', eq_time = JStr ''13:00'',
      eq_location = JStr ''Hyderabad, Telangana'', eq_capacity = JNum 50,
      eq_category = JStr ''tech'', eq_image = JUndefined, eq_price = JUndefined\<rparr>"

section \<open>Basic facts\<close>

lemma count_is_total: "num_or (sum_tickets db (Some i)) 0 = ticket_total db i"
  by (simp add: num_or_def sum_tickets_def ticket_total_def Let_def)

lemma status_simps:
  "status validation_failed = 400" "status event_not_found = 404"
  "status (capacity_exceeded n) = 400" "status registration_failed = 500"
  "status (registration_successful r e) = 201"
  by (simp_all add: validation_failed_def event_not_found_def capacity_exceeded_def
        registration_failed_def registration_successful_def)

section \<open>Stores the operations reach\<close>

text \<open>
  The empty store has distinct ids below its counters, and every operation that
  changes the store keeps it so (for a registration request, see
  \<open>wf_post_registrations\<close> below).
\<close>

lemma wf_empty_db: "wf_db empty_db"
  by (simp add: wf_db_def empty_db_def)

lemma wf_append_event:
  assumes "wf_db db" and "ev_id row = events_seq db + 1"
  shows "wf_db (db\<lparr>events := events db @ [row], events_seq := events_seq db + 1\<rparr>)"
proof -
  from assms(1) have below: "\<forall>e \<in> set (events db). ev_id e \<le> events_seq db"
    by (simp add: wf_db_def list_all_iff)
  then have "ev_id row \<notin> ev_id ` set (events db)"
    using assms(2) by fastforce
  moreover from below have "\<forall>e \<in> set (events db). ev_id e \<le> events_seq db + 1"
    by fastforce
  ultimately show ?thesis
    using assms by (simp add: wf_db_def list_all_iff)
qed

lemma wf_createEvent:
  assumes "wf_db db" and "createEvent err db eventData = (r, db')"
  shows "wf_db db'"
  using assms
  by (auto simp: createEvent_def insert_event_def Let_def split: if_splits intro!: wf_append_event)

lemma wf_deleteEvent:
  assumes "wf_db db" and "deleteEvent err1 err2 db eventId = (r, db')"
  shows "wf_db db'"
  using assms
  by (auto simp: deleteEvent_def delete_registrations_of_def delete_event_row_def Let_def
        wf_db_def list_all_iff distinct_map_filter split: if_splits)

section \<open>Validation of a registration request\<close>

text \<open>
  C8: a registration request in which a required field (firstName, lastName, email,
  phone, eventId, tickets) is missing, or otherwise falsy, is answered with the
  validation failure, whatever the store holds and whether or not the driver would
  fail: the handler finishes in its first step, before any statement is sent, and the
  store is returned unchanged. The validation failure differs from the not-found
  failure, from every capacity-exceeded failure, from the storage failure and from
  every success.
\<close>

theorem missing_field_rejected:
  assumes "\<not> truthy (rq_firstName req) \<or> \<not> truthy (rq_lastName req) \<or> \<not> truthy (rq_email req) \<or>
           \<not> truthy (rq_phone req) \<or> \<not> truthy (rq_eventId req) \<or> \<not> truthy (rq_tickets req)"
  shows "post_registrations errs db req = (validation_failed, db) \<and>
         step err db (Start req) = (Finished validation_failed, db) \<and>
         validation_failed \<noteq> event_not_found \<and>
         validation_failed \<noteq> capacity_exceeded remaining \<and>
         validation_failed \<noteq> registration_failed \<and>
         validation_failed \<noteq> registration_successful registration event"
proof -
  from assms have m: "missing_required req"
    by (simp add: missing_required_def)
  have "post_registrations errs db req = (validation_failed, db)"
    using m by (simp add: post_registrations_def)
  moreover have "step err db (Start req) = (Finished validation_failed, db)"
    using m by simp
  moreover have "validation_failed \<noteq> event_not_found"
    by (simp add: validation_failed_def event_not_found_def)
  moreover have "validation_failed \<noteq> capacity_exceeded remaining"
    by (simp add: validation_failed_def capacity_exceeded_def)
  moreover have "validation_failed \<noteq> registration_failed"
    by (simp add: validation_failed_def registration_failed_def)
  moreover have "validation_failed \<noteq> registration_successful registration event"
    by (simp add: validation_failed_def registration_successful_def)
  ultimately show ?thesis by blast
qed

theorem missing_field_rejected_witness:
  "\<not> truthy (rq_email ((example_request (JNum 2))\<lparr>rq_email := JUndefined\<rparr>)) \<and>
   post_registrations [] example_db ((example_request (JNum 2))\<lparr>rq_email := JUndefined\<rparr>)
     = (Response 400 (ErrorBody ''All required fields must be filled''), example_db) \<and>
   Response 400 (ErrorBody ''All required fields must be filled'')
     \<noteq> capacity_exceeded 2"
  using missing_field_rejected
    [of "(example_request (JNum 2))\<lparr>rq_email := JUndefined\<rparr>" "[]" example_db False 2]
  by (simp add: example_request_def validation_failed_def)

text \<open>
  C10, as amended: a registration request whose \<^verbatim>\<open>tickets\<close> field is falsy (the
  number 0, the empty string, \<^verbatim>\<open>false\<close>, \<^verbatim>\<open>null\<close> or absent) is answered with the
  validation failure in the handler's first step, before the event is looked up,
  whatever the store holds, and the store is returned unchanged.
\<close>

theorem falsy_tickets_rejected:
  assumes "\<not> truthy (rq_tickets req)"
  shows "post_registrations errs db req = (validation_failed, db) \<and>
         step err db (Start req) = (Finished validation_failed, db)"
  using assms by (simp add: post_registrations_def missing_required_def)

text \<open>
  The number 0 as \<^verbatim>\<open>tickets\<close>, for an event that exists and has two tickets left;
  the answer is the same when the driver would fail the lookup.
\<close>

theorem falsy_tickets_rejected_witness:
  "\<not> truthy (JNum 0) \<and>
   getEventById False example_db (Some 1) = Inr (Some example_event) \<and>
   getEventAttendeeCount False example_db (Some 1) = Inr 8 \<and> ev_capacity example_event = 10 \<and>
   post_registrations [] example_db (example_request (JNum 0)) = (validation_failed, example_db) \<and>
   post_registrations [True] example_db (example_request (JNum 0)) = (validation_failed, example_db)"
  using falsy_tickets_rejected [of "example_request (JNum 0)" "[]" example_db False]
        falsy_tickets_rejected [of "example_request (JNum 0)" "[True]" example_db False]
  by (simp add: example_request_def example_db_def example_event_def example_registration_def
        getEventById_def getEventAttendeeCount_def sum_tickets_def num_or_def)

text \<open>
  C10 as stated fails: the string \<^verbatim>\<open>"0"\<close> is truthy and \<^verbatim>\<open>parseInt\<close> reads it
  as 0, so the request passes validation and a registration of zero tickets is written.
\<close>

theorem zero_tickets_counterexample:
  "truthy (JStr ''0'') \<and> parseInt (JStr ''0'') = Some 0 \<and>
   status (fst (post_registrations [] example_db (example_request (JStr ''0'')))) = 201 \<and>
   map reg_tickets
     (registrations (snd (post_registrations [] example_db (example_request (JStr ''0''))))) = [8, 0]"
  by code_simp

section \<open>Deleting an event\<close>

lemma find_None_filter: "(find P xs = None) = (filter P xs = [])"
  by (induction xs) auto

lemma distinct_filter_le1:
  "distinct (map f xs) \<Longrightarrow> length (filter (\<lambda>x. Some (f x) = a) xs) \<le> 1"
  by (induction xs) (auto simp: filter_empty_conv image_iff)

lemma find_after_delete: "find P (filter (\<lambda>x. \<not> P x) xs) = None"
  by (induction xs) auto

lemma find_by_id:
  "find (\<lambda>e. Some (ev_id e) = i) es = Some event \<Longrightarrow> i = Some (ev_id event) \<and> event \<in> set es"
  by (induction es) (auto split: if_splits)

text \<open>
  C5: on a store whose event ids are distinct (the primary key), \<^verbatim>\<open>deleteEvent\<close>
  with no driver failure removes every registration of the event and then the event,
  and resolves with the number of events removed: 0 when no event has the id, 1 when
  one has. Afterwards the registrations of that id are the empty list and the event is
  not found.
\<close>

theorem deleteEvent_removes_event_and_registrations:
  assumes "wf_db db"
  shows "\<exists>n db'. deleteEvent False False db eventId = (Inr n, db') \<and>
           n = (if getEventById False db eventId = Inr None then 0 else 1) \<and>
           registrations db' = filter (\<lambda>r. Some (reg_event_id r) \<noteq> eventId) (registrations db) \<and>
           events db' = filter (\<lambda>e. Some (ev_id e) \<noteq> eventId) (events db) \<and>
           getEventRegistrations False db' eventId = Inr [] \<and>
           getEventById False db' eventId = Inr None"
proof -
  let ?P = "\<lambda>e. Some (ev_id e) = eventId"
  from assms have d: "distinct (map ev_id (events db))"
    by (simp add: wf_db_def)
  have le: "length (filter ?P (events db)) \<le> 1"
    using distinct_filter_le1 [OF d, of eventId] .
  have n: "length (filter ?P (events db)) = (if find ?P (events db) = None then 0 else 1)"
  proof (cases "filter ?P (events db) = []")
    case True
    then show ?thesis by (simp add: find_None_filter)
  next
    case False
    then have "length (filter ?P (events db)) \<noteq> 0" by simp
    with le have "length (filter ?P (events db)) = 1" by linarith
    with False show ?thesis by (simp add: find_None_filter)
  qed
  have r: "filter (\<lambda>r. Some (reg_event_id r) = eventId)
             (filter (\<lambda>r. Some (reg_event_id r) \<noteq> eventId) (registrations db)) = []"
    by (simp add: filter_empty_conv)
  show ?thesis
    using n r
    by (simp add: deleteEvent_def delete_registrations_of_def delete_event_row_def
          getEventById_def getEventRegistrations_def Let_def find_after_delete)
qed

theorem deleteEvent_removes_witness:
  "wf_db example_db \<and>
   deleteEvent False False example_db (Some 1)
     = (Inr 1, example_db\<lparr>events := [], registrations := []\<rparr>) \<and>
   deleteEvent False False example_db (Some 7) = (Inr 0, example_db)"
  using deleteEvent_removes_event_and_registrations [of example_db "Some 1"]
        deleteEvent_removes_event_and_registrations [of example_db "Some 7"]
  by (simp add: wf_db_def example_db_def example_event_def example_registration_def
       deleteEvent_def delete_registrations_of_def delete_event_row_def Let_def)

text \<open>
  C4, as amended: when either statement of \<^verbatim>\<open>deleteEvent\<close> fails, \<^verbatim>\<open>deleteEvent\<close>
  fails and no event row is removed. When the first statement (the removal of the
  registrations) fails, the store is unchanged. When the first succeeds and the second
  (the removal of the event) fails, the store is left with the registrations of the
  event removed and the event still there. In no outcome is an event row removed while
  registrations of that id remain.
\<close>

theorem deleteEvent_failure:
  "(err1 \<or> err2 \<longrightarrow>
      fst (deleteEvent err1 err2 db eventId) = Inl DriverFailure \<and>
      events (snd (deleteEvent err1 err2 db eventId)) = events db) \<and>
   (err1 \<longrightarrow> snd (deleteEvent err1 err2 db eventId) = db) \<and>
   (\<not> err1 \<and> err2 \<longrightarrow>
      snd (deleteEvent err1 err2 db eventId) = delete_registrations_of db eventId) \<and>
   (events (snd (deleteEvent err1 err2 db eventId)) \<noteq> events db \<longrightarrow>
      getEventRegistrations False (snd (deleteEvent err1 err2 db eventId)) eventId = Inr [])"
  by (simp add: deleteEvent_def delete_registrations_of_def delete_event_row_def
        getEventRegistrations_def Let_def filter_empty_conv)

theorem deleteEvent_failure_witness:
  "deleteEvent True False example_db (Some 1) = (Inl DriverFailure, example_db) \<and>
   deleteEvent False True example_db (Some 1)
     = (Inl DriverFailure, example_db\<lparr>registrations := []\<rparr>)"
  using deleteEvent_failure [of True False example_db "Some 1"]
        deleteEvent_failure [of False True example_db "Some 1"]
  by (simp add: deleteEvent_def delete_registrations_of_def example_db_def example_registration_def)

text \<open>
  C4 as stated fails: when the driver fails the second statement, \<^verbatim>\<open>deleteEvent\<close>
  fails, yet the registration of the event is gone from the store while the event
  is still found.
\<close>

theorem deleteEvent_partial_counterexample:
  "getEventRegistrations False example_db (Some 1) = Inr [example_registration] \<and>
   fst (deleteEvent False True example_db (Some 1)) = Inl DriverFailure \<and>
   getEventRegistrations False (snd (deleteEvent False True example_db (Some 1))) (Some 1) = Inr [] \<and>
   getEventById False (snd (deleteEvent False True example_db (Some 1))) (Some 1)
     = Inr (Some example_event)"
  by (simp add: deleteEvent_def delete_registrations_of_def getEventRegistrations_def getEventById_def
       example_db_def example_registration_def example_event_def)

section \<open>Listing events\<close>

text \<open>
  C6, as amended: with no driver failure \<^verbatim>\<open>getAllEvents\<close> returns rows in ascending
  order of (date, time). With no category, with the empty string or with \<^verbatim>\<open>"all"\<close>
  the rows are all the events; with any other category they are exactly the events of
  that category.
\<close>

theorem getAllEvents_filtered_and_ordered:
  "\<exists>rows. getAllEvents False db category = Inr rows \<and>
          sorted (map (\<lambda>e. (ev_date e, ev_time e)) rows) \<and>
          mset rows =
            mset (if category = None \<or> category = Some [] \<or> category = Some ''all'' then events db
                  else filter (\<lambda>e. Some (ev_category e) = category) (events db))"
  by (cases category) (auto simp: getAllEvents_def)

theorem getAllEvents_witness:
  "map ev_id (projr (getAllEvents False listing_db None)) = [2, 3, 1] \<and>
   map ev_id (projr (getAllEvents False listing_db (Some ''all''))) = [2, 3, 1] \<and>
   map ev_id (projr (getAllEvents False listing_db (Some ''tech''))) = [3, 1] \<and>
   sorted (map (\<lambda>e. (ev_date e, ev_time e)) (projr (getAllEvents False listing_db (Some ''tech''))))"
proof -
  have ids:
    "map ev_id (projr (getAllEvents False listing_db None)) = [2, 3, 1] \<and>
     map ev_id (projr (getAllEvents False listing_db (Some ''all''))) = [2, 3, 1] \<and>
     map ev_id (projr (getAllEvents False listing_db (Some ''tech''))) = [3, 1]"
    by code_simp
  from getAllEvents_filtered_and_ordered [of listing_db "Some ''tech''"]
  obtain rows where "getAllEvents False listing_db (Some ''tech'') = Inr rows"
    and "sorted (map (\<lambda>e. (ev_date e, ev_time e)) rows)"
    by blast
  then have "sorted (map (\<lambda>e. (ev_date e, ev_time e))
               (projr (getAllEvents False listing_db (Some ''tech''))))"
    by simp
  with ids show ?thesis by blast
qed

text \<open>
  C6 as stated fails for the empty string, a category filter other than \<^verbatim>\<open>"all"\<close>:
  it is falsy, so no \<^verbatim>\<open>WHERE\<close> clause is added and the event of category
  \<^verbatim>\<open>tech\<close> is returned, although its category is not the filter.
\<close>

theorem empty_filter_counterexample:
  "getAllEvents False example_db (Some []) = Inr [example_event] \<and>
   ev_category example_event \<noteq> []"
  by (simp add: getAllEvents_def example_db_def example_event_def)

section \<open>Creating an event\<close>

lemma truthy_sql_text: "truthy v \<Longrightarrow> \<exists>s. sql_text v = Some s"
  by (cases v) auto

lemma falsy_sql_text: "\<not> truthy v \<Longrightarrow> sql_text v \<noteq> Some placeholder_image"
  by (cases v) (auto simp: placeholder_image_def decimal_def decimal_nat.simps)

text \<open>
  C7 at the requests that fail it: for a request with every required field, a capacity
  that \<^verbatim>\<open>parseInt\<close> reads and no image (or a falsy one), the handler answers 201 with
  a record that has the new id and \<^verbatim>\<open>attendees\<close> 0, and the stored row has
  \<^verbatim>\<open>attendees\<close> 0 and the placeholder URL as image; but the image of the returned
  record is the image of the request, not the placeholder that was stored.
\<close>

theorem createEvent_returns_raw_image:
  assumes "truthy (eq_title req)" and "truthy (eq_description req)" and "truthy (eq_date req)"
      and "truthy (eq_time req)" and "truthy (eq_location req)" and "truthy (eq_capacity req)"
      and "truthy (eq_category req)"
      and "parseInt (eq_capacity req) = Some c"
      and "\<not> truthy (eq_image req)"
  shows "\<exists>newEvent row db'.
           post_events parseFloat False db req = (Response 201 (EventCreated newEvent), db') \<and>
           events db' = events db @ [row] \<and>
           ce_id newEvent = ev_id row \<and> ce_attendees newEvent = 0 \<and> ev_attendees row = Some 0 \<and>
           ev_image row = Some placeholder_image \<and>
           ed_image (ce_data newEvent) = eq_image req \<and>
           sql_text (ed_image (ce_data newEvent)) \<noteq> ev_image row"
proof -
  obtain t d da ti l ca where
    "sql_text (eq_title req) = Some t" "sql_text (eq_description req) = Some d"
    "sql_text (eq_date req) = Some da" "sql_text (eq_time req) = Some ti"
    "sql_text (eq_location req) = Some l" "sql_text (eq_category req) = Some ca"
    using assms truthy_sql_text by metis
  then show ?thesis
    using assms falsy_sql_text [of "eq_image req"]
    by (simp add: post_events_def createEvent_def insert_event_def js_or_def Let_def)
qed

theorem createEvent_returns_raw_image_witness:
  "truthy (eq_capacity example_event_request) \<and>
   parseInt (eq_capacity example_event_request) = Some 50 \<and>
   \<not> truthy (eq_image example_event_request) \<and>
   status (fst (post_events (\<lambda>v. None) False empty_db example_event_request)) = 201 \<and>
   map ev_image (events (snd (post_events (\<lambda>v. None) False empty_db example_event_request)))
     = [Some placeholder_image]"
proof -
  have "status (fst (post_events (\<lambda>v. None) False empty_db example_event_request)) = 201 \<and>
        map ev_image (events (snd (post_events (\<lambda>v. None) False empty_db example_event_request)))
          = [Some placeholder_image]"
    using createEvent_returns_raw_image [of example_event_request 50 "\<lambda>v. None" empty_db]
    by (auto simp: example_event_request_def empty_db_def)
  then show ?thesis
    by (simp add: example_event_request_def)
qed

section \<open>The capacity check\<close>

lemma count_of: "getEventAttendeeCount False db (Some i) = Inr (ticket_total db i)"
  by (simp add: getEventAttendeeCount_def count_is_total)

text \<open>
  C2: take a request with every required field, for an event that is found, whose
  \<^verbatim>\<open>tickets\<close> \<^verbatim>\<open>parseInt\<close> reads as a number, with every number involved a safe
  integer (\<open>in_safe_range\<close>), and let the driver not fail. If the
  count of the event's registered tickets plus the requested tickets is at most the
  capacity (equality included), the registration succeeds: the answer is the success
  response and one row, for that event and with the requested tickets, is appended to
  the registrations. If the sum is more than the capacity, the answer is the 400
  response whose message gives capacity minus count as the number of tickets left, and
  the store is unchanged.
\<close>

theorem capacity_check_inclusive:
  assumes "\<not> missing_required req"
      and "getEventById False db (parseInt (rq_eventId req)) = Inr (Some event)"
      and "getEventAttendeeCount False db (parseInt (rq_eventId req)) = Inr currentAttendees"
      and "parseInt (rq_tickets req) = Some requestedTickets"
      and "\<forall>k. \<not> fails errs k"
      and "in_safe_range db req"
  shows "(currentAttendees + requestedTickets \<le> ev_capacity event \<longrightarrow>
           (\<exists>registration row db'.
              post_registrations errs db req =
                (registration_successful registration
                   (event\<lparr>ev_attendees := Some (currentAttendees + requestedTickets)\<rparr>), db') \<and>
              registrations db' = registrations db @ [row] \<and>
              Some (reg_event_id row) = parseInt (rq_eventId req) \<and>
              reg_tickets row = requestedTickets)) \<and>
         (currentAttendees + requestedTickets > ev_capacity event \<longrightarrow>
            post_registrations errs db req =
              (Response 400
                 (ErrorBody (''Only '' @ decimal (ev_capacity event - currentAttendees) @
                             '' tickets available for this event'')), db))"
proof -
  obtain fn ln em ph where
    "sql_text (rq_firstName req) = Some fn" "sql_text (rq_lastName req) = Some ln"
    "sql_text (rq_email req) = Some em" "sql_text (rq_phone req) = Some ph"
    using assms(1) truthy_sql_text unfolding missing_required_def by metis
  moreover obtain eid where "parseInt (rq_eventId req) = Some eid"
    using assms(2) by (auto simp: getEventById_def dest: find_by_id)
  ultimately show ?thesis
    using assms(1-5)
    by (simp add: post_registrations_def num_gt_def num_add_def createRegistration_def
          insert_registration_def registration_of_def updateEventAttendees_def capacity_exceeded_def
          Let_def) blast
qed

text \<open>
  The event of capacity 10 with 8 tickets registered: a request for the 2 that are
  left succeeds, and a request for 3 is refused with 2 reported as left.
\<close>

theorem capacity_check_inclusive_witness:
  "\<not> missing_required (example_request (JNum 2)) \<and>
   in_safe_range example_db (example_request (JNum 2)) \<and>
   in_safe_range example_db (example_request (JNum 3)) \<and>
   getEventById False example_db (Some 1) = Inr (Some example_event) \<and>
   getEventAttendeeCount False example_db (Some 1) = Inr 8 \<and>
   ev_capacity example_event = 10 \<and>
   status (fst (post_registrations [] example_db (example_request (JNum 2)))) = 201 \<and>
   map reg_tickets (registrations (snd (post_registrations [] example_db (example_request (JNum 2)))))
     = [8, 2] \<and>
   post_registrations [] example_db (example_request (JNum 3)) =
     (Response 400 (ErrorBody ''Only 2 tickets available for this event''), example_db)"
proof -
  have pre:
    "\<not> missing_required (example_request (JNum 2))" "\<not> missing_required (example_request (JNum 3))"
    "getEventById False example_db (parseInt (rq_eventId (example_request (JNum 2))))
       = Inr (Some example_event)"
    "getEventById False example_db (parseInt (rq_eventId (example_request (JNum 3))))
       = Inr (Some example_event)"
    "getEventAttendeeCount False example_db (parseInt (rq_eventId (example_request (JNum 2)))) = Inr 8"
    "getEventAttendeeCount False example_db (parseInt (rq_eventId (example_request (JNum 3)))) = Inr 8"
    "parseInt (rq_tickets (example_request (JNum 2))) = Some 2"
    "parseInt (rq_tickets (example_request (JNum 3))) = Some 3"
    "\<forall>k. \<not> fails [] k" "ev_capacity example_event = 10"
    by (simp_all add: missing_required_def example_request_def example_db_def example_event_def
          example_registration_def getEventById_def getEventAttendeeCount_def sum_tickets_def
          num_or_def fails_def)
  have range:
    "in_safe_range example_db (example_request (JNum 2))"
    "in_safe_range example_db (example_request (JNum 3))"
    by (simp_all add: in_safe_range_def safe_integer_def abs_tickets_def ticket_total_def
          example_request_def example_db_def example_event_def example_registration_def)
  have dec: "decimal 2 = ''2''"
    by code_simp
  from capacity_check_inclusive [OF pre(1) pre(3) pre(5) pre(7) pre(9) range(1)]
       capacity_check_inclusive [OF pre(2) pre(4) pre(6) pre(8) pre(9) range(2)] pre dec range
  show ?thesis
    by (auto simp: status_simps example_request_def example_db_def example_registration_def)
qed

section \<open>Successful registrations\<close>

lemma createRegistration_Inr:
  "createRegistration err db rd = (Inr reg, db1) \<longleftrightarrow>
     (\<not> err \<and> (\<exists>eid fn ln em ph t.
        rd_eventId rd = Some eid \<and> sql_text (rd_firstName rd) = Some fn \<and>
        sql_text (rd_lastName rd) = Some ln \<and> sql_text (rd_email rd) = Some em \<and>
        sql_text (rd_phone rd) = Some ph \<and> rd_tickets rd = Some t \<and>
        reg = \<lparr>cr_id = registrations_seq db + 1, cr_data = rd\<rparr> \<and>
        db1 = db\<lparr>registrations := registrations db @
                 [\<lparr>reg_id = registrations_seq db + 1, reg_event_id = eid, reg_first_name = fn,
                   reg_last_name = ln, reg_email = em, reg_phone = ph, reg_tickets = t,
                   reg_comments = sql_text (js_or (rd_comments rd) (JStr []))\<rparr>],
               registrations_seq := registrations_seq db + 1\<rparr>))"
  by (auto simp: createRegistration_def insert_registration_def Let_def
      split: prod.splits sum.splits if_splits)

lemma createRegistration_Inl:
  "createRegistration err db rd = (Inl e, db1) \<Longrightarrow> db1 = db"
  by (auto simp: createRegistration_def insert_registration_def Let_def
      split: prod.splits sum.splits if_splits)

lemma post_registrations_201:
  assumes "post_registrations errs db req = (resp, db')" and "status resp = 201"
  shows "\<exists>eid t event reg db1.
           \<not> missing_required req \<and>
           parseInt (rq_eventId req) = Some eid \<and> parseInt (rq_tickets req) = Some t \<and>
           find (\<lambda>e. ev_id e = eid) (events db) = Some event \<and>
           ticket_total db eid + t \<le> ev_capacity event \<and>
           createRegistration False db (registration_of req) = (Inr reg, db1) \<and>
           updateEventAttendees False db1 (Some eid) (Some (ticket_total db eid + t)) = (Inr (), db') \<and>
           resp = registration_successful reg (event\<lparr>ev_attendees := Some (ticket_total db eid + t)\<rparr>)"
  using assms
  apply (simp add: post_registrations_def getEventById_def getEventAttendeeCount_def status_simps Let_def
      split: if_splits option.splits sum.splits prod.splits)
  apply (auto simp: status_simps num_gt_def num_add_def count_is_total createRegistration_Inr
        registration_of_def updateEventAttendees_def split: option.splits if_splits)
  done

lemma wf_append_registration:
  assumes "wf_db db" and "reg_id row = registrations_seq db + 1"
  shows "wf_db (db\<lparr>registrations := registrations db @ [row],
                   registrations_seq := registrations_seq db + 1\<rparr>)"
proof -
  from assms(1) have below: "\<forall>r \<in> set (registrations db). reg_id r \<le> registrations_seq db"
    by (simp add: wf_db_def list_all_iff)
  then have "reg_id row \<notin> reg_id ` set (registrations db)"
    using assms(2) by fastforce
  moreover from below have "\<forall>r \<in> set (registrations db). reg_id r \<le> registrations_seq db + 1"
    by fastforce
  ultimately show ?thesis
    using assms by (simp add: wf_db_def list_all_iff)
qed

lemma wf_createRegistration:
  "wf_db db \<Longrightarrow> createRegistration err db rd = (r, db1) \<Longrightarrow> wf_db db1"
proof (cases r)
  case (Inl e)
  assume "wf_db db" "createRegistration err db rd = (r, db1)"
  with Inl show ?thesis by (auto dest: createRegistration_Inl)
next
  case (Inr reg)
  assume "wf_db db" "createRegistration err db rd = (r, db1)"
  with Inr show ?thesis
    by (auto simp: createRegistration_Inr intro!: wf_append_registration)
qed

lemma wf_updateEventAttendees:
  "wf_db db \<Longrightarrow> updateEventAttendees err db i n = (r, db1) \<Longrightarrow> wf_db db1"
  by (auto simp: updateEventAttendees_def wf_db_def list_all_iff comp_def if_distrib
      split: if_splits cong: if_cong)

lemma wf_post_registrations:
  assumes "wf_db db" and "post_registrations errs db req = (resp, db')"
  shows "wf_db db'"
  using assms
  by (auto simp: post_registrations_def Let_def
      split: if_splits option.splits sum.splits prod.splits
      dest: wf_createRegistration wf_updateEventAttendees)

lemma ticket_total_append:
  "ticket_total (db\<lparr>registrations := registrations db @ [row], registrations_seq := s\<rparr>) i =
     ticket_total db i + (if reg_event_id row = i then reg_tickets row else 0)"
  by (simp add: ticket_total_def)

lemma same_id_same_row:
  "distinct (map ev_id es) \<Longrightarrow> x \<in> set es \<Longrightarrow> y \<in> set es \<Longrightarrow> ev_id x = ev_id y \<Longrightarrow> x = y"
  by (metis distinct_map inj_on_eq_iff)

lemma find_id_in: "find (\<lambda>e. ev_id e = i) es = Some event \<Longrightarrow> ev_id event = i \<and> event \<in> set es"
  by (induction es) (auto split: if_splits)

lemma in_updated_events:
  "e \<in> set (map (\<lambda>x. if P x then x\<lparr>ev_attendees := n\<rparr> else x) es) \<Longrightarrow>
     \<exists>e0 \<in> set es. ev_id e0 = ev_id e \<and> ev_capacity e0 = ev_capacity e"
  by (auto split: if_splits)

lemma success_within_capacity:
  assumes wf: "wf_db db" and run: "post_registrations errs db req = (resp, db')"
      and ok: "status resp = 201"
  shows "(\<exists>e \<in> set (events db'). Some (ev_id e) = parseInt (rq_eventId req)) \<and>
         (\<forall>e \<in> set (events db'). Some (ev_id e) = parseInt (rq_eventId req) \<longrightarrow>
            ticket_total db' (ev_id e) \<le> ev_capacity e)"
proof -
  from post_registrations_201 [OF run ok] obtain eid t event reg db1 where
    eid: "parseInt (rq_eventId req) = Some eid" and t: "parseInt (rq_tickets req) = Some t" and
    found: "find (\<lambda>e. ev_id e = eid) (events db) = Some event" and
    fits: "ticket_total db eid + t \<le> ev_capacity event" and
    ins: "createRegistration False db (registration_of req) = (Inr reg, db1)" and
    upd: "updateEventAttendees False db1 (Some eid) (Some (ticket_total db eid + t)) = (Inr (), db')"
    by blast
  from found have ev: "ev_id event = eid" "event \<in> set (events db)"
    by (auto dest: find_id_in)
  from wf have d: "distinct (map ev_id (events db))"
    by (simp add: wf_db_def)
  from ins eid t have total1: "ticket_total db1 eid = ticket_total db eid + t" and ev1: "events db1 = events db"
    by (auto simp: createRegistration_Inr registration_of_def ticket_total_append)
  from upd have regs: "registrations db' = registrations db1" and
    evs: "events db' = map (\<lambda>e. if ev_id e = eid then e\<lparr>ev_attendees := Some (ticket_total db eid + t)\<rparr> else e) (events db1)"
    by (auto simp: updateEventAttendees_def)
  from regs have total': "ticket_total db' eid = ticket_total db1 eid"
    by (simp add: ticket_total_def)
  have "event\<lparr>ev_attendees := Some (ticket_total db eid + t)\<rparr> \<in> set (events db')"
    using ev evs ev1 by (auto simp: image_iff intro!: bexI [of _ event])
  then have "\<exists>e \<in> set (events db'). ev_id e = eid"
    using ev by (auto intro!: bexI [of _ "event\<lparr>ev_attendees := Some (ticket_total db eid + t)\<rparr>"])
  moreover have "ticket_total db' (ev_id e) \<le> ev_capacity e"
    if "e \<in> set (events db')" "ev_id e = eid" for e
  proof -
    from that(1) evs ev1 obtain e0 where "e0 \<in> set (events db)" "ev_id e0 = ev_id e"
        "ev_capacity e0 = ev_capacity e"
      using in_updated_events [of e "\<lambda>x. ev_id x = eid" "Some (ticket_total db eid + t)" "events db"]
      by auto
    with that(2) have e0: "e0 \<in> set (events db)" "ev_id e0 = eid" "ev_capacity e = ev_capacity e0"
      by simp_all
    with ev d have "e0 = event"
      by (auto intro: same_id_same_row)
    with e0 fits total1 total' that show ?thesis
      by simp
  qed
  ultimately show ?thesis
    using eid by auto
qed

text \<open>
  C1: start from a store whose ids are distinct and handle any sequence of
  registration requests one after the other, each to its end, whatever the driver
  does, with every number involved a safe integer (\<open>safe_run\<close>: each request is in
  range on the store it meets). After every request that is answered with success, the
  event of the request is in the store, and the tickets of all registrations for it
  sum to at most its capacity. (The trace of a sequence starts with the trace of each
  of its prefixes, so only the requests up to the successful one need be in range.)
\<close>

theorem registered_tickets_within_capacity:
  assumes "wf_db db" and "(req, resp, db') \<in> set (run_requests reqs db)" and "status resp = 201"
      and "safe_run reqs db"
  shows "(\<exists>e \<in> set (events db'). Some (ev_id e) = parseInt (rq_eventId req)) \<and>
         (\<forall>e \<in> set (events db'). Some (ev_id e) = parseInt (rq_eventId req) \<longrightarrow>
            ticket_total db' (ev_id e) \<le> ev_capacity e)"
  using assms
proof (induction reqs arbitrary: db)
  case Nil
  then show ?case by simp
next
  case (Cons a reqs)
  obtain errs r where a: "a = (errs, r)" by (cases a)
  obtain resp1 db1 where run: "post_registrations errs db r = (resp1, db1)"
    by (cases "post_registrations errs db r")
  from Cons.prems(2) a run
  consider "(req, resp, db') = (r, resp1, db1)" | "(req, resp, db') \<in> set (run_requests reqs db1)"
    by auto
  then show ?case
  proof cases
    case 1
    with run Cons.prems(1,3) show ?thesis
      using success_within_capacity [of db errs r resp1 db1] by simp
  next
    case 2
    have "wf_db db1"
      using wf_post_registrations [OF Cons.prems(1) run] .
    moreover from Cons.prems(4) a run have "safe_run reqs db1"
      by simp
    ultimately show ?thesis
      using Cons.IH [OF _ 2 Cons.prems(3)] by blast
  qed
qed

lemma example_facts:
  "wf_db example_db"
  "\<not> missing_required (example_request (JNum n)) \<longleftrightarrow> n \<noteq> 0"
  "parseInt (rq_eventId (example_request v)) = Some 1"
  "parseInt (rq_tickets (example_request (JNum n))) = Some n"
  "getEventById False example_db (Some 1) = Inr (Some example_event)"
  "ticket_total example_db 1 = 8"
  "ev_capacity example_event = 10"
  by (simp_all add: wf_db_def missing_required_def example_request_def example_db_def
        example_event_def example_registration_def getEventById_def ticket_total_def)


text \<open>
  The event of capacity 10 with 8 tickets registered: a request for 2 succeeds and
  brings the sum to 10; a request for 1 after it is refused with 0 reported as left.
\<close>

theorem registered_tickets_within_capacity_witness:
  "wf_db example_db \<and>
   safe_run [([], example_request (JNum 2)), ([], example_request (JNum 1))] example_db \<and>
   status (fst (post_registrations [] example_db (example_request (JNum 2)))) = 201 \<and>
   ticket_total (snd (post_registrations [] example_db (example_request (JNum 2)))) 1 = 10 \<and>
   ticket_total (snd (post_registrations [] example_db (example_request (JNum 2)))) 1
     \<le> ev_capacity example_event \<and>
   fst (post_registrations [] (snd (post_registrations [] example_db (example_request (JNum 2))))
          (example_request (JNum 1)))
     = Response 400 (ErrorBody ''Only 0 tickets available for this event'')"
proof -
  let ?r = "post_registrations [] example_db (example_request (JNum 2))"
  let ?reqs = "[([], example_request (JNum 2)), ([], example_request (JNum 1))]"
  have ok: "status (fst ?r) = 201"
    by code_simp
  have total: "ticket_total (snd ?r) 1 = 10"
    by code_simp
  have second: "fst (post_registrations [] (snd ?r) (example_request (JNum 1)))
                  = Response 400 (ErrorBody ''Only 0 tickets available for this event'')"
    by code_simp
  have ev: "map (\<lambda>e. (ev_id e, ev_capacity e)) (events (snd ?r)) = [(1, 10)]"
    by code_simp
  have mem: "(example_request (JNum 2), fst ?r, snd ?r) \<in> set (run_requests ?reqs example_db)"
    by (simp add: split_beta Let_def)
  have range: "safe_run ?reqs example_db"
    by code_simp
  from registered_tickets_within_capacity [OF example_facts(1) mem ok range]
  have "\<forall>e \<in> set (events (snd ?r)). Some (ev_id e) = parseInt (rq_eventId (example_request (JNum 2)))
          \<longrightarrow> ticket_total (snd ?r) (ev_id e) \<le> ev_capacity e"
    by blast
  moreover from ev obtain e where "events (snd ?r) = [e]" "ev_id e = 1" "ev_capacity e = 10"
    by auto
  ultimately have "ticket_total (snd ?r) 1 \<le> ev_capacity example_event"
    by (simp add: example_facts)
  with ok total second example_facts(1) range show ?thesis
    by simp
qed

section \<open>The cached attendee count\<close>










section \<open>Requests in flight together\<close>

text \<open>Run alone, the steps between the awaits make up the handler.\<close>

lemma run_alone_is_handler:
  "run_alone errs db (Start req) =
     (Finished (fst (post_registrations errs db req)), snd (post_registrations errs db req))"
  by (simp add: run_alone_def post_registrations_def Let_def
        split: sum.splits option.splits prod.splits)

lemma step_Start_found:
  "\<not> missing_required req \<Longrightarrow> getEventById False db (parseInt (rq_eventId req)) = Inr (Some event) \<Longrightarrow>
     step False db (Start req) = (AwaitCount req event, db)"
  by simp

lemma step_AwaitCount_fits:
  "parseInt (rq_eventId req) = Some eid \<Longrightarrow> parseInt (rq_tickets req) = Some t \<Longrightarrow>
   ticket_total db eid + t \<le> ev_capacity event \<Longrightarrow>
     step False db (AwaitCount req event) = (AwaitInsert req event (ticket_total db eid), db)"
  by (simp add: count_of num_gt_def num_add_def)

lemma step_AwaitInsert_valid:
  assumes "\<not> missing_required req" and "parseInt (rq_eventId req) = Some eid"
      and "parseInt (rq_tickets req) = Some t"
  shows "\<exists>reg db1. step False db (AwaitInsert req event cur) = (AwaitUpdate req event cur reg, db1) \<and>
           events db1 = events db \<and> ticket_total db1 eid = ticket_total db eid + t"
proof -
  obtain fn ln em ph where
    "sql_text (rq_firstName req) = Some fn" "sql_text (rq_lastName req) = Some ln"
    "sql_text (rq_email req) = Some em" "sql_text (rq_phone req) = Some ph"
    using assms(1) truthy_sql_text unfolding missing_required_def by metis
  with assms(2,3) show ?thesis
    by (simp add: createRegistration_def insert_registration_def registration_of_def Let_def
          ticket_total_def)
qed

lemma find_updated:
  "find (\<lambda>e. ev_id e = i) (map (\<lambda>e. if ev_id e = i then e\<lparr>ev_attendees := n\<rparr> else e) es) =
     map_option (\<lambda>e. e\<lparr>ev_attendees := n\<rparr>) (find (\<lambda>e. ev_id e = i) es)"
  by (induction es) simp_all

lemma step_AwaitUpdate_done:
  assumes "parseInt (rq_eventId req) = Some eid" and "parseInt (rq_tickets req) = Some t"
  shows "\<exists>db2. step False db (AwaitUpdate req event cur reg) =
           (Finished (registration_successful reg (event\<lparr>ev_attendees := Some (cur + t)\<rparr>)), db2) \<and>
           registrations db2 = registrations db \<and>
           getEventById False db2 (Some eid) =
             Inr (map_option (\<lambda>e. e\<lparr>ev_attendees := Some (cur + t)\<rparr>)
                    (find (\<lambda>e. Some (ev_id e) = Some eid) (events db)))"
  using assms
  by (simp add: updateEventAttendees_def num_add_def Let_def getEventById_def find_updated)

text \<open>
  C9: take two valid requests for the same event, each of which fits in the remaining
  capacity on its own while both together do not, and let them take turns at their
  awaits. After two turns each, both hold the same count, read from the unchanged
  store, and have passed the capacity check; after four turns each, both are answered
  with success, and the registered tickets of the event exceed its capacity. The
  cached \<^verbatim>\<open>attendees\<close> field then holds the count plus the second request's tickets
  only.
\<close>

theorem concurrent_requests_overbook:
  assumes va: "\<not> missing_required a" and vb: "\<not> missing_required b"
      and ia: "parseInt (rq_eventId a) = Some eid" and ib: "parseInt (rq_eventId b) = Some eid"
      and ev: "getEventById False db (Some eid) = Inr (Some event)"
      and ta: "parseInt (rq_tickets a) = Some ta" and tb: "parseInt (rq_tickets b) = Some tb"
      and fa: "ticket_total db eid + ta \<le> ev_capacity event"
      and fb: "ticket_total db eid + tb \<le> ev_capacity event"
      and over: "ticket_total db eid + ta + tb > ev_capacity event"
  shows "\<exists>ra rb db'.
           run_schedule (take 4 alternating) db [Start a, Start b] =
             ([AwaitInsert a event (ticket_total db eid), AwaitInsert b event (ticket_total db eid)], db) \<and>
           run_schedule alternating db [Start a, Start b] = ([Finished ra, Finished rb], db') \<and>
           status ra = 201 \<and> status rb = 201 \<and>
           ticket_total db' eid = ticket_total db eid + ta + tb \<and>
           getEventById False db' (Some eid) =
             Inr (Some (event\<lparr>ev_attendees := Some (ticket_total db eid + tb)\<rparr>)) \<and>
           ticket_total db' eid > ev_capacity event"
proof -
  let ?cur = "ticket_total db eid"
  have s1: "step False db (Start a) = (AwaitCount a event, db)"
    using va ia ev by (simp add: step_Start_found)
  have s2: "step False db (Start b) = (AwaitCount b event, db)"
    using vb ib ev by (simp add: step_Start_found)
  have s3: "step False db (AwaitCount a event) = (AwaitInsert a event ?cur, db)"
    using ia ta fa by (rule step_AwaitCount_fits)
  have s4: "step False db (AwaitCount b event) = (AwaitInsert b event ?cur, db)"
    using ib tb fb by (rule step_AwaitCount_fits)
  obtain rega db1 where s5: "step False db (AwaitInsert a event ?cur) = (AwaitUpdate a event ?cur rega, db1)"
    and e1: "events db1 = events db" and t1: "ticket_total db1 eid = ?cur + ta"
    using step_AwaitInsert_valid [OF va ia ta] by blast
  obtain regb db2 where s6: "step False db1 (AwaitInsert b event ?cur) = (AwaitUpdate b event ?cur regb, db2)"
    and e2: "events db2 = events db1" and t2: "ticket_total db2 eid = ticket_total db1 eid + tb"
    using step_AwaitInsert_valid [OF vb ib tb] by blast
  obtain db3 where s7: "step False db2 (AwaitUpdate a event ?cur rega) =
        (Finished (registration_successful rega (event\<lparr>ev_attendees := Some (?cur + ta)\<rparr>)), db3)"
    and r3: "registrations db3 = registrations db2"
    and g3: "getEventById False db3 (Some eid) =
               Inr (map_option (\<lambda>e. e\<lparr>ev_attendees := Some (?cur + ta)\<rparr>)
                      (find (\<lambda>e. Some (ev_id e) = Some eid) (events db2)))"
    using step_AwaitUpdate_done [OF ia ta] by blast
  obtain db4 where s8: "step False db3 (AwaitUpdate b event ?cur regb) =
        (Finished (registration_successful regb (event\<lparr>ev_attendees := Some (?cur + tb)\<rparr>)), db4)"
    and r4: "registrations db4 = registrations db3"
    and g4: "getEventById False db4 (Some eid) =
               Inr (map_option (\<lambda>e. e\<lparr>ev_attendees := Some (?cur + tb)\<rparr>)
                      (find (\<lambda>e. Some (ev_id e) = Some eid) (events db3)))"
    using step_AwaitUpdate_done [OF ib tb] by blast
  have first: "run_schedule (take 4 alternating) db [Start a, Start b] =
                 ([AwaitInsert a event ?cur, AwaitInsert b event ?cur], db)"
    by (simp add: alternating_def s1 s2 s3 s4 del: step.simps)
  have all: "run_schedule alternating db [Start a, Start b] =
               ([Finished (registration_successful rega (event\<lparr>ev_attendees := Some (?cur + ta)\<rparr>)),
                 Finished (registration_successful regb (event\<lparr>ev_attendees := Some (?cur + tb)\<rparr>))], db4)"
    by (simp add: alternating_def s1 s2 s3 s4 s5 s6 s7 s8 del: step.simps)
  have total: "ticket_total db4 eid = ?cur + ta + tb"
    using r4 r3 t2 t1 by (simp add: ticket_total_def)
  from ev e1 e2 have "find (\<lambda>e. Some (ev_id e) = Some eid) (events db2) = Some event"
    by (simp add: getEventById_def)
  with g3 have "find (\<lambda>e. Some (ev_id e) = Some eid) (events db3) = Some (event\<lparr>ev_attendees := Some (?cur + ta)\<rparr>)"
    by (simp add: getEventById_def)
  with g4 have found: "getEventById False db4 (Some eid) = Inr (Some (event\<lparr>ev_attendees := Some (?cur + tb)\<rparr>))"
    by simp
  from first all total found over show ?thesis
    by (simp add: status_simps)
qed

text \<open>
  Capacity 10, 8 tickets registered, and two requests for 2 tickets each: both
  succeed and 12 tickets are registered.
\<close>

theorem concurrent_requests_overbook_witness:
  "ticket_total example_db 1 + 2 \<le> ev_capacity example_event \<and>
   (\<exists>ra rb db'.
      run_schedule alternating example_db
        [Start (example_request (JNum 2)), Start (example_request (JNum 2))]
        = ([Finished ra, Finished rb], db') \<and>
      status ra = 201 \<and> status rb = 201 \<and> ticket_total db' 1 = 12 \<and>
      ev_capacity example_event = 10)"
proof -
  have v: "\<not> missing_required (example_request (JNum 2))"
    by (simp add: example_facts)
  have fits: "ticket_total example_db 1 + 2 \<le> ev_capacity example_event"
    by (simp add: example_facts)
  have over: "ticket_total example_db 1 + 2 + 2 > ev_capacity example_event"
    by (simp add: example_facts)
  from concurrent_requests_overbook
         [OF v v example_facts(3) example_facts(3) example_facts(5) example_facts(4) example_facts(4)
             fits fits over]
  obtain ra rb db' where
    "run_schedule alternating example_db
       [Start (example_request (JNum 2)), Start (example_request (JNum 2))]
       = ([Finished ra, Finished rb], db')"
    "status ra = 201" "status rb = 201" "ticket_total db' 1 = ticket_total example_db 1 + 2 + 2"
    by blast
  then show ?thesis
    using fits by (auto simp: example_facts)
qed

end
